theory Spec2Isabelle
  imports Complex_Main "HOL-Library.Char_ord" "HOL-Library.List_Lexorder"
    "HOL-Library.Code_Target_Numeral"
begin

section \<open>Values of the dashboard\<close>

subsection \<open>Python floats and nullable temperatures\<close>

text \<open>
  A Python float is one of: not-a-number, minus infinity, a finite value, plus infinity.
  A finite double denotes a real number, and the comparisons of \<open>app.py\<close> (against the
  integer literals 10, 20 and 30) are exact on doubles, so a finite float is modelled by
  the real it denotes; arithmetic on doubles rounds, as written out where the mean is
  modelled. The two zeros of a double are one value in the model.
  A nullable float is \<open>pyfloat option\<close>, with \<open>None\<close> for Python's \<open>None\<close>.
\<close>

datatype pyfloat = NaN | NegInf | Finite real | PosInf

text \<open>IEEE comparison \<open>a < b\<close>: false as soon as one side is not a number.\<close>

fun py_lt :: "pyfloat \<Rightarrow> pyfloat \<Rightarrow> bool" where
  "py_lt NaN _ = False"
| "py_lt _ NaN = False"
| "py_lt NegInf NegInf = False"
| "py_lt NegInf _ = True"
| "py_lt (Finite x) (Finite y) = (x < y)"
| "py_lt (Finite x) PosInf = True"
| "py_lt (Finite x) NegInf = False"
| "py_lt PosInf _ = False"

text \<open>IEEE comparison \<open>a <= b\<close>.\<close>

fun py_le :: "pyfloat \<Rightarrow> pyfloat \<Rightarrow> bool" where
  "py_le NaN _ = False"
| "py_le _ NaN = False"
| "py_le NegInf _ = True"
| "py_le (Finite x) (Finite y) = (x \<le> y)"
| "py_le (Finite x) PosInf = True"
| "py_le (Finite x) NegInf = False"
| "py_le PosInf PosInf = True"
| "py_le PosInf _ = False"

text \<open>\<open>pd.isnull\<close> on a scalar: true for \<open>None\<close> and for NaN, false for every other float.\<close>

fun pd_isnull :: "pyfloat option \<Rightarrow> bool" where
  "pd_isnull None = True"
| "pd_isnull (Some NaN) = True"
| "pd_isnull (Some _) = False"

subsection \<open>Bucket labels\<close>

text \<open>
  The labels are Python strings with non-ASCII characters; a \<open>string\<close> here is the
  UTF-8 encoding of the source literal (degree sign C2 B0, en dash E2 80 93,
  greater-or-equal sign E2 89 A5).
\<close>

definition degree_C :: string where
  "degree_C = [CHR 0xC2, CHR 0xB0, CHR ''C'']"

definition en_dash :: string where
  "en_dash = [CHR 0xE2, CHR 0x80, CHR 0x93]"

definition label_unknown :: string where
  "label_unknown = ''Unknown''"

definition label_lt10 :: string where
  "label_lt10 = ''<10'' @ degree_C"

definition label_10_20 :: string where
  "label_10_20 = ''10'' @ en_dash @ ''20'' @ degree_C"

definition label_20_30 :: string where
  "label_20_30 = ''20'' @ en_dash @ ''30'' @ degree_C"

definition label_ge30 :: string where
  "label_ge30 = [CHR 0xE2, CHR 0x89, CHR 0xA5] @ ''30'' @ degree_C"

lemmas label_defs =
  degree_C_def en_dash_def label_unknown_def label_lt10_def label_10_20_def
  label_20_30_def label_ge30_def

subsection \<open>The categorizer\<close>

text \<open>
  \<open>categorize_temperature\<close> of \<open>app.py\<close>, branch by branch. The chained comparison
  \<open>10 <= temp < 20\<close> is \<open>10 <= temp and temp < 20\<close>. \<open>None\<close> is null for
  \<open>pd.isnull\<close> and takes the first branch. No branch raises on a nullable float, so the
  result is a plain string.
\<close>

fun categorize_temperature :: "pyfloat option \<Rightarrow> string" where
  "categorize_temperature None = label_unknown"
| "categorize_temperature (Some t) =
     (if pd_isnull (Some t) then label_unknown
      else if py_lt t (Finite 10) then label_lt10
      else if py_le (Finite 10) t \<and> py_lt t (Finite 20) then label_10_20
      else if py_le (Finite 20) t \<and> py_lt t (Finite 30) then label_20_30
      else label_ge30)"

text \<open>
  The ordering of the four known buckets, as the specification lists them; \<open>Unknown\<close>
  (and any other string) has no rank.
\<close>

definition bucket_rank :: "string \<Rightarrow> nat option" where
  "bucket_rank s =
     (if s = label_lt10 then Some 0
      else if s = label_10_20 then Some 1
      else if s = label_20_30 then Some 2
      else if s = label_ge30 then Some 3
      else None)"

definition all_buckets :: "string list" where
  "all_buckets = [label_lt10, label_10_20, label_20_30, label_ge30, label_unknown]"


section \<open>The loaded fact table\<close>

text \<open>
  One row of the frame that \<open>load_weather_data\<close> returns: the six columns of its SELECT.
  A date is modelled by its ordinal (\<open>date.toordinal\<close>), whose order is the order of
  dates; the three name columns are strings, as in the data model. A frame is the list
  of its rows, in order.
\<close>

type_synonym date = int

record weather_row =
  temperature_id :: int
  temp :: "pyfloat option"
  full_date :: date
  city_name :: string
  country_name :: string
  condition_name :: string

text \<open>The frame after \<open>df["temp_range"] = df["temp"].apply(categorize_temperature)\<close>.\<close>

record bucketed_row = weather_row +
  temp_range :: string

definition add_temp_range :: "weather_row \<Rightarrow> bucketed_row" where
  "add_temp_range r =
     \<lparr>temperature_id = temperature_id r, temp = temp r, full_date = full_date r,
      city_name = city_name r, country_name = country_name r,
      condition_name = condition_name r,
      temp_range = categorize_temperature (temp r)\<rparr>"

definition apply_categorize :: "weather_row list \<Rightarrow> bucketed_row list" where
  "apply_categorize df = map add_temp_range df"

subsection \<open>The pandas operations that the filter uses\<close>

text \<open>\<open>df[name]\<close>: the column of a frame, one value per row.\<close>

definition column :: "('r \<Rightarrow> 'a) \<Rightarrow> 'r list \<Rightarrow> 'a list" where
  "column name df = map name df"

text \<open>\<open>Series.unique()\<close>: the distinct values in order of first appearance.\<close>

fun unique :: "'a list \<Rightarrow> 'a list" where
  "unique [] = []"
| "unique (x # xs) = x # filter (\<lambda>y. y \<noteq> x) (unique xs)"

text \<open>\<open>Series.isin(values)\<close>: a boolean mask, true where the value is one of \<open>values\<close>.\<close>

definition isin :: "'a list \<Rightarrow> 'a list \<Rightarrow> bool list" where
  "isin col vals = map (\<lambda>v. v \<in> set vals) col"

text \<open>\<open>m1 & m2\<close> on two masks over the same frame: the conjunction, row by row.\<close>

definition mask_and :: "bool list \<Rightarrow> bool list \<Rightarrow> bool list" where
  "mask_and m1 m2 = map (\<lambda>(a, b). a \<and> b) (zip m1 m2)"

text \<open>\<open>df[mask]\<close>: the rows whose mask entry is true, in their order.\<close>

definition boolean_index :: "'r list \<Rightarrow> bool list \<Rightarrow> 'r list" where
  "boolean_index df msk = map fst (filter snd (zip df msk))"

subsection \<open>The filter\<close>

text \<open>
  \<open>filtered_df\<close> of \<open>app.py\<close>; the four selections are what the multiselect widgets
  return (lists of options). \<open>a & b & c & d\<close> associates to the left.
\<close>

definition filtered_df ::
  "bucketed_row list \<Rightarrow> string list \<Rightarrow> string list \<Rightarrow> string list \<Rightarrow> string list
     \<Rightarrow> bucketed_row list" where
  "filtered_df df selected_condition selected_country selected_city selected_ranges =
     boolean_index df
       (mask_and
         (mask_and
           (mask_and (isin (column condition_name df) selected_condition)
                     (isin (column country_name df) selected_country))
           (isin (column city_name df) selected_city))
         (isin (column temp_range df) selected_ranges))"

text \<open>
  The row predicate of the specification's \<open>filter\<close>: all four categorical attributes
  of the row are members of their selection.
\<close>

definition row_selected ::
  "string list \<Rightarrow> string list \<Rightarrow> string list \<Rightarrow> string list \<Rightarrow> bucketed_row \<Rightarrow> bool" where
  "row_selected sel_cond sel_country sel_city sel_range r =
     (condition_name r \<in> set sel_cond \<and> country_name r \<in> set sel_country
      \<and> city_name r \<in> set sel_city \<and> temp_range r \<in> set sel_range)"

text \<open>Two rows used to run the definitions on concrete input.\<close>

definition row_rio :: weather_row where
  "row_rio = \<lparr>temperature_id = 1, temp = Some (Finite 31), full_date = 739000,
     city_name = ''Rio'', country_name = ''Brazil'', condition_name = ''Clear''\<rparr>"

definition row_oslo :: weather_row where
  "row_oslo = \<lparr>temperature_id = 2, temp = None, full_date = 739001,
     city_name = ''Oslo'', country_name = ''Norway'', condition_name = ''Snow''\<rparr>"

section \<open>Aggregation\<close>

subsection \<open>Double arithmetic\<close>

text \<open>
  The doubles are the reals \<open>m * 2^q\<close> with \<open>m\<close> an integer below \<open>2^53\<close> in absolute
  value and \<open>q\<close> from -1074 to 971. An arithmetic operation on doubles returns its exact
  result rounded to the nearest double, a tie going to the even \<open>m\<close>, and an infinity
  when the rounded result reaches \<open>2^1024\<close>.
\<close>

text \<open>The number of binary digits of a natural number.\<close>

fun bit_length :: "nat \<Rightarrow> nat" where
  "bit_length n = (if n = 0 then 0 else Suc (bit_length (n div 2)))"

declare bit_length.simps [simp del]

text \<open>The integer part of the binary logarithm of a positive real.\<close>

definition floor_log2 :: "real \<Rightarrow> int" where
  "floor_log2 a =
     (if 1 \<le> a then int (bit_length (nat \<lfloor>a\<rfloor>)) - 1
      else - int (bit_length (nat \<lceil>1 / a\<rceil> - 1)))"

definition pow2 :: "int \<Rightarrow> real" where
  "pow2 q = (if 0 \<le> q then 2 ^ nat q else 1 / 2 ^ nat (- q))"

text \<open>Rounding to the nearest integer, a tie going to the even one.\<close>

definition round_half_even :: "real \<Rightarrow> int" where
  "round_half_even y =
     (let f = \<lfloor>y\<rfloor>; d = y - of_int f in
      if d < 1 / 2 then f else if 1 / 2 < d then f + 1
      else if even f then f else f + 1)"

text \<open>The exponent \<open>q\<close> of the doubles around a positive real.\<close>

definition double_exponent :: "real \<Rightarrow> int" where
  "double_exponent a = max (floor_log2 a - 52) (- 1074)"

text \<open>A positive real rounded to the nearest multiple of \<open>2^q\<close>.\<close>

definition round_to_grid :: "real \<Rightarrow> int \<Rightarrow> real" where
  "round_to_grid a q = real_of_int (round_half_even (a / pow2 q)) * pow2 q"

definition round_double :: "real \<Rightarrow> pyfloat" where
  "round_double x =
     (if x = 0 then Finite 0
      else
        (let y = round_to_grid \<bar>x\<bar> (double_exponent \<bar>x\<bar>)
         in if 2 ^ 1024 \<le> y then (if x < 0 then NegInf else PosInf)
            else Finite (if x < 0 then - y else y)))"

text \<open>Addition of two floats, and division of a float by a positive count.\<close>

fun pf_add :: "pyfloat \<Rightarrow> pyfloat \<Rightarrow> pyfloat" where
  "pf_add NaN _ = NaN"
| "pf_add _ NaN = NaN"
| "pf_add (Finite x) (Finite y) = round_double (x + y)"
| "pf_add PosInf NegInf = NaN"
| "pf_add NegInf PosInf = NaN"
| "pf_add PosInf _ = PosInf"
| "pf_add _ PosInf = PosInf"
| "pf_add NegInf _ = NegInf"
| "pf_add _ NegInf = NegInf"

fun pf_div_count :: "pyfloat \<Rightarrow> nat \<Rightarrow> pyfloat" where
  "pf_div_count (Finite x) n = round_double (x / real n)"
| "pf_div_count v n = v"

subsection \<open>The mean of a column\<close>

text \<open>The values of a column that are not null, in order (\<open>skipna=True\<close>).\<close>

fun dropna :: "pyfloat option list \<Rightarrow> pyfloat list" where
  "dropna [] = []"
| "dropna (None # xs) = dropna xs"
| "dropna (Some v # xs) = (if pd_isnull (Some v) then dropna xs else v # dropna xs)"

text \<open>
  The mean that pandas computes skips nulls: it is NaN when no value is left, and
  otherwise the mean of the values left, in double arithmetic. In which order pandas adds
  the values, and with which correction terms, is its own matter and differs between its
  routines, so the mean of a non-empty list of doubles is a parameter \<open>fmean\<close> of the
  model; every result below holds for every \<open>fmean\<close>.
\<close>

definition series_mean :: "(pyfloat list \<Rightarrow> pyfloat) \<Rightarrow> pyfloat option list \<Rightarrow> pyfloat" where
  "series_mean fmean xs = (let vs = dropna xs in if vs = [] then NaN else fmean vs)"

text \<open>
  One such mean: the values added from left to right, then one division by their
  number, each operation rounded as above.
\<close>

definition sequential_mean :: "pyfloat list \<Rightarrow> pyfloat" where
  "sequential_mean vs = pf_div_count (foldl pf_add (Finite 0) vs) (length vs)"

subsection \<open>Grouping and sorting\<close>














section \<open>Summary metrics\<close>

text \<open>\<open>Series.nunique()\<close>: the number of distinct values.\<close>

definition nunique :: "'a list \<Rightarrow> nat" where
  "nunique col = length (unique col)"

text \<open>
  The format specification \<open>.2f\<close> on a float: \<open>nan\<close>, \<open>inf\<close> and \<open>-inf\<close> for the values
  that are not finite; for a finite value the sign, the integer part, a point and two
  digits, the value rounded to the nearest hundredth, a tie going to the even one. (The
  model has one zero, so the \<open>-0.00\<close> that Python prints for a negative zero is not
  distinguished.)
\<close>

definition digits :: string where
  "digits = ''0123456789''"

definition digit_char :: "nat \<Rightarrow> char" where
  "digit_char d = digits ! d"

fun str_nat :: "nat \<Rightarrow> string" where
  "str_nat n =
     (if n < 10 then [digit_char n] else str_nat (n div 10) @ [digit_char (n mod 10)])"

declare str_nat.simps [simp del]

fun format_2f :: "pyfloat \<Rightarrow> string" where
  "format_2f NaN = ''nan''"
| "format_2f PosInf = ''inf''"
| "format_2f NegInf = ''-inf''"
| "format_2f (Finite x) =
     (let n = nat (round_half_even (\<bar>x\<bar> * 100)) in
      (if x < 0 then ''-'' else []) @ str_nat (n div 100) @ ''.''
        @ [digit_char (n mod 100 div 10), digit_char (n mod 10)])"

text \<open>
  The three values handed to \<open>st.metric\<close>: the number of distinct cities, the number of
  rows, and the mean temperature formatted with \<open>.2f\<close> unless the frame is empty, when
  it is the en dash.
\<close>

definition summary_metrics ::
  "(pyfloat list \<Rightarrow> pyfloat) \<Rightarrow> bucketed_row list \<Rightarrow> nat \<times> nat \<times> string" where
  "summary_metrics fmean fdf =
     (nunique (column city_name fdf), length fdf,
      if fdf \<noteq> [] then format_2f (series_mean fmean (column temp fdf)) else en_dash)"

section \<open>Configuration and the warehouse\<close>

subsection \<open>Connection parameters\<close>

text \<open>
  The process environment is a map from names to values; \<open>os.getenv(name)\<close> is the
  lookup, \<open>None\<close> for a name that is not set. The exceptions that can leave the code:
  \<open>ValueError\<close> from \<open>int\<close>, the connector's \<open>OperationalError\<close> (no connection), and
  \<open>DatabaseError\<close> for a statement that the warehouse rejects.
\<close>

type_synonym environ = "string \<rightharpoonup> string"

datatype error = ValueError | OperationalError | DatabaseError

record db_config =
  host :: "string option"
  port :: int
  user :: "string option"
  password :: "string option"
  dbname :: "string option"

text \<open>
  The module-level dictionary \<open>DB_CONFIG\<close>. The builtin \<open>int\<close> on a string is the
  parameter \<open>py_int\<close> (\<open>None\<close> where it raises \<open>ValueError\<close>); an unset \<open>DB_PORT\<close> is the
  integer default 5432. The four other entries are the environment's values as they are.
\<close>

definition DB_CONFIG :: "(string \<Rightarrow> int option) \<Rightarrow> environ \<Rightarrow> error + db_config" where
  "DB_CONFIG py_int env =
     (case (case env ''DB_PORT'' of None \<Rightarrow> Some 5432 | Some s \<Rightarrow> py_int s) of
        None \<Rightarrow> Inl ValueError
      | Some p \<Rightarrow>
          Inr \<lparr>host = env ''DB_HOST'', port = p, user = env ''DB_USER'',
               password = env ''DB_PASSWORD'', dbname = env ''DB_NAME''\<rparr>)"

subsection \<open>The connector as a test double\<close>

text \<open>
  What the program does to the warehouse is recorded as a trace of events, in order.
  The connector and the warehouse are a parameter: given the trace so far, it says
  whether \<open>psycopg2.connect\<close> raises for a configuration and what a statement returns
  (so the warehouse may answer differently as time goes on).
\<close>

datatype event = Connected db_config | ConnectFailed db_config | Execute string | Close

record 'r driver =
  connect_error :: "event list \<Rightarrow> db_config \<Rightarrow> error option"
  query_result :: "event list \<Rightarrow> string \<Rightarrow> error + 'r"

definition psycopg2_connect ::
  "'r driver \<Rightarrow> db_config \<Rightarrow> event list \<Rightarrow> (error + unit) \<times> event list" where
  "psycopg2_connect drv cfg tr =
     (case connect_error drv tr cfg of
        Some e \<Rightarrow> (Inl e, tr @ [ConnectFailed cfg])
      | None \<Rightarrow> (Inr (), tr @ [Connected cfg]))"

text \<open>One statement sent on the open connection (\<open>cursor.execute\<close> with \<open>fetchall\<close>, or
  \<open>pd.read_sql_query\<close>).\<close>

definition run_statement ::
  "'r driver \<Rightarrow> string \<Rightarrow> event list \<Rightarrow> (error + 'r) \<times> event list" where
  "run_statement drv sql tr = (query_result drv tr sql, tr @ [Execute sql])"

definition conn_close :: "event list \<Rightarrow> event list" where
  "conn_close tr = tr @ [Close]"

text \<open>The connections that a trace leaves open, and the statements it sent.\<close>

fun open_after :: "nat \<Rightarrow> event list \<Rightarrow> nat" where
  "open_after n [] = n"
| "open_after n (Connected _ # tr) = open_after (Suc n) tr"
| "open_after n (Close # tr) = open_after (n - 1) tr"
| "open_after n (_ # tr) = open_after n tr"

definition open_connections :: "event list \<Rightarrow> nat" where
  "open_connections tr = open_after 0 tr"

fun is_execute :: "event \<Rightarrow> bool" where
  "is_execute (Execute _) = True"
| "is_execute _ = False"

definition round_trips :: "event list \<Rightarrow> nat" where
  "round_trips tr = length (filter is_execute tr)"

subsection \<open>The three query functions\<close>

definition nl :: string where
  "nl = [CHR 0x0A]"

definition table_names_sql :: string where
  "table_names_sql =
     nl @
     ''        SELECT table_schema, table_name'' @ nl @
     ''        FROM information_schema.tables'' @ nl @
     ''        WHERE table_schema NOT IN ('' @ [CHR 0x27] @ ''pg_catalog'' @ [CHR 0x27] @ '', '' @ [CHR 0x27] @ ''information_schema'' @ [CHR 0x27] @ '')'' @ nl @
     ''        ORDER BY table_schema, table_name;'' @ nl @
     ''    ''"

definition weather_sql :: string where
  "weather_sql =
     nl @
     ''        SELECT'' @ nl @
     ''            f.temperature_id,'' @ nl @
     ''            f.temp,'' @ nl @
     ''            d.full_date,'' @ nl @
     ''            ci.city_name,'' @ nl @
     ''            co.country_name,'' @ nl @
     ''            cond.condition_name'' @ nl @
     ''        FROM fact.temperature f'' @ nl @
     ''        JOIN dim.date d ON f.date_id = d.date_id'' @ nl @
     ''        JOIN dim.city ci ON f.city_id = ci.city_id'' @ nl @
     ''        JOIN dim.country co ON ci.country_id = co.country_id'' @ nl @
     ''        JOIN dim.conditions cond ON f.condition_id = cond.condition_id;'' @ nl @
     ''    ''"

text \<open>The f-string of \<open>get_table_data\<close>: both identifiers in double quotes.\<close>

definition table_data_sql :: "string \<Rightarrow> string \<Rightarrow> string" where
  "table_data_sql schema table =
     ''SELECT * FROM '' @ [CHR 0x22] @ schema @ [CHR 0x22] @ ''.'' @ [CHR 0x22] @ table
       @ [CHR 0x22] @ '' LIMIT 500''"

text \<open>
  Each function connects, sends its statement, closes the connection and returns the
  result, in this order and with no handler: an exception of \<open>connect\<close> or of the
  statement leaves the function at once, the later lines not run.
\<close>

definition get_table_names ::
  "'r driver \<Rightarrow> db_config \<Rightarrow> event list \<Rightarrow> (error + 'r) \<times> event list" where
  "get_table_names drv cfg tr =
     (case psycopg2_connect drv cfg tr of
        (Inl e, tr1) \<Rightarrow> (Inl e, tr1)
      | (Inr conn, tr1) \<Rightarrow>
          (case run_statement drv table_names_sql tr1 of
             (Inl e, tr2) \<Rightarrow> (Inl e, tr2)
           | (Inr tables, tr2) \<Rightarrow> (Inr tables, conn_close tr2)))"

definition get_table_data ::
  "'r driver \<Rightarrow> db_config \<Rightarrow> string \<Rightarrow> string \<Rightarrow> event list \<Rightarrow> (error + 'r) \<times> event list" where
  "get_table_data drv cfg schema table tr =
     (case psycopg2_connect drv cfg tr of
        (Inl e, tr1) \<Rightarrow> (Inl e, tr1)
      | (Inr conn, tr1) \<Rightarrow>
          (case run_statement drv (table_data_sql schema table) tr1 of
             (Inl e, tr2) \<Rightarrow> (Inl e, tr2)
           | (Inr df, tr2) \<Rightarrow> (Inr df, conn_close tr2)))"

definition load_weather_data ::
  "'r driver \<Rightarrow> db_config \<Rightarrow> event list \<Rightarrow> (error + 'r) \<times> event list" where
  "load_weather_data drv cfg tr =
     (case psycopg2_connect drv cfg tr of
        (Inl e, tr1) \<Rightarrow> (Inl e, tr1)
      | (Inr conn, tr1) \<Rightarrow>
          (case run_statement drv weather_sql tr1 of
             (Inl e, tr2) \<Rightarrow> (Inl e, tr2)
           | (Inr df, tr2) \<Rightarrow> (Inr df, conn_close tr2)))"

subsection \<open>The result cache\<close>

text \<open>
  The decorator \<open>st.cache_data\<close>, by its documented contract: one cache per decorated
  function, keyed by the argument values; a call whose key is cached returns the stored
  value without running the function; otherwise the function runs, and its value is
  stored when it returns (an exception propagates and stores nothing). The cache lives
  as long as the process.
\<close>

definition cache_data ::
  "('k \<Rightarrow> event list \<Rightarrow> (error + 'v) \<times> event list) \<Rightarrow> ('k \<rightharpoonup> 'v) \<Rightarrow> 'k \<Rightarrow> event list
     \<Rightarrow> (error + 'v) \<times> ('k \<rightharpoonup> 'v) \<times> event list" where
  "cache_data f cache args tr =
     (case cache args of
        Some v \<Rightarrow> (Inr v, cache, tr)
      | None \<Rightarrow>
          (case f args tr of
             (Inl e, tr') \<Rightarrow> (Inl e, cache, tr')
           | (Inr v, tr') \<Rightarrow> (Inr v, cache(args \<mapsto> v), tr')))"

text \<open>
  The decorated functions. The configuration is a module global, not an argument, so it
  is no part of a key: the functions without arguments have the one key \<open>()\<close>, and
  \<open>get_table_data\<close> has the pair of its arguments.
\<close>

definition cached_get_table_names ::
  "'r driver \<Rightarrow> db_config \<Rightarrow> (unit \<rightharpoonup> 'r) \<Rightarrow> unit \<Rightarrow> event list
     \<Rightarrow> (error + 'r) \<times> (unit \<rightharpoonup> 'r) \<times> event list" where
  "cached_get_table_names drv cfg = cache_data (\<lambda>_. get_table_names drv cfg)"

definition cached_get_table_data ::
  "'r driver \<Rightarrow> db_config \<Rightarrow> (string \<times> string \<rightharpoonup> 'r) \<Rightarrow> string \<times> string \<Rightarrow> event list
     \<Rightarrow> (error + 'r) \<times> (string \<times> string \<rightharpoonup> 'r) \<times> event list" where
  "cached_get_table_data drv cfg =
     cache_data (\<lambda>(schema, table). get_table_data drv cfg schema table)"

definition cached_load_weather_data ::
  "'r driver \<Rightarrow> db_config \<Rightarrow> (unit \<rightharpoonup> 'r) \<Rightarrow> unit \<Rightarrow> event list
     \<Rightarrow> (error + 'r) \<times> (unit \<rightharpoonup> 'r) \<times> event list" where
  "cached_load_weather_data drv cfg = cache_data (\<lambda>_. load_weather_data drv cfg)"

subsection \<open>The start of the script\<close>

text \<open>
  The module-level statements up to the first use of the warehouse: \<open>DB_CONFIG\<close> is
  built, and the first tab calls \<open>get_table_names()\<close> on the still empty cache. Nothing
  between the two reads or checks the configuration.
\<close>

definition script_start ::
  "(string \<Rightarrow> int option) \<Rightarrow> environ \<Rightarrow> 'r driver \<Rightarrow> (error + 'r) \<times> event list" where
  "script_start py_int env drv =
     (case DB_CONFIG py_int env of
        Inl e \<Rightarrow> (Inl e, [])
      | Inr cfg \<Rightarrow>
          (case cached_get_table_names drv cfg Map.empty () [] of
             (res, cache, tr) \<Rightarrow> (res, tr)))"

text \<open>
  Test doubles: a warehouse that accepts every connection and answers each statement
  with the number of events before it (so no two answers are the same); one that accepts
  the connection and rejects every statement; one that refuses every connection.
\<close>

definition driver_ok :: "nat driver" where
  "driver_ok = \<lparr>connect_error = (\<lambda>tr cfg. None), query_result = (\<lambda>tr sql. Inr (length tr))\<rparr>"

definition driver_bad_query :: "nat driver" where
  "driver_bad_query =
     \<lparr>connect_error = (\<lambda>tr cfg. None), query_result = (\<lambda>tr sql. Inl DatabaseError)\<rparr>"

definition driver_down :: "nat driver" where
  "driver_down =
     \<lparr>connect_error = (\<lambda>tr cfg. Some OperationalError),
      query_result = (\<lambda>tr sql. Inl DatabaseError)\<rparr>"

definition config_none :: db_config where
  "config_none = \<lparr>host = None, port = 5432, user = None, password = None, dbname = None\<rparr>"

definition config_local :: db_config where
  "config_local = \<lparr>host = Some ''localhost'', port = 5432, user = Some ''weather'',
     password = Some ''secret'', dbname = Some ''warehouse''\<rparr>"

text \<open>
  The three ways through the common shape of the query functions, written out as the
  traces they leave: the connection refused; the statement rejected (no \<open>Close\<close>);
  the statement answered and the connection closed.
\<close>

definition outcome ::
  "'r driver \<Rightarrow> db_config \<Rightarrow> string \<Rightarrow> event list \<Rightarrow> (error + 'r) \<times> event list" where
  "outcome drv cfg sql tr =
     (case connect_error drv tr cfg of
        Some e \<Rightarrow> (Inl e, tr @ [ConnectFailed cfg])
      | None \<Rightarrow>
          (case query_result drv (tr @ [Connected cfg]) sql of
             Inl e \<Rightarrow> (Inl e, tr @ [Connected cfg, Execute sql])
           | Inr r \<Rightarrow> (Inr r, tr @ [Connected cfg, Execute sql, Close])))"

section \<open>The categorizer: results\<close>

lemma categorize_None: "categorize_temperature None = label_unknown"
  by simp

lemma categorize_NaN: "categorize_temperature (Some NaN) = label_unknown"
  by simp

lemma categorize_Finite:
  "categorize_temperature (Some (Finite x)) =
     (if x < 10 then label_lt10 else if x < 20 then label_10_20
      else if x < 30 then label_20_30 else label_ge30)"
  by simp

lemma categorize_NegInf: "categorize_temperature (Some NegInf) = label_lt10"
  by simp

lemma categorize_PosInf: "categorize_temperature (Some PosInf) = label_ge30"
  by simp

lemma distinct_all_buckets: "distinct all_buckets"
  by (simp add: all_buckets_def label_defs)

lemma bucket_rank_labels:
  "bucket_rank label_lt10 = Some 0" "bucket_rank label_10_20 = Some 1"
  "bucket_rank label_20_30 = Some 2" "bucket_rank label_ge30 = Some 3"
  "bucket_rank label_unknown = None"
  by (simp_all add: bucket_rank_def label_defs)

text \<open>
  Claim C1. \<open>categorize_temperature\<close> returns "Unknown" for a null input, the bucket
  below 10 for a temperature under 10, the bucket 10 to 20 for a temperature in [10, 20),
  the bucket 20 to 30 for one in [20, 30) and the bucket from 30 for one that is at
  least 30; in particular so at \<open>None\<close>, 9.999, 10.0, 29.999 and 30.0.
\<close>

theorem C1_categorize_buckets:
  "categorize_temperature None = label_unknown
   \<and> (a < 10 \<longrightarrow> categorize_temperature (Some (Finite a)) = label_lt10)
   \<and> (10 \<le> b \<and> b < 20 \<longrightarrow> categorize_temperature (Some (Finite b)) = label_10_20)
   \<and> (20 \<le> c \<and> c < 30 \<longrightarrow> categorize_temperature (Some (Finite c)) = label_20_30)
   \<and> (30 \<le> d \<longrightarrow> categorize_temperature (Some (Finite d)) = label_ge30)
   \<and> categorize_temperature (Some (Finite (9999 / 1000))) = label_lt10
   \<and> categorize_temperature (Some (Finite 10)) = label_10_20
   \<and> categorize_temperature (Some (Finite (29999 / 1000))) = label_20_30
   \<and> categorize_temperature (Some (Finite 30)) = label_ge30"
  by (simp add: categorize_None categorize_Finite)

theorem C1_categorize_buckets_witness:
  "(5::real) < 10 \<and> categorize_temperature (Some (Finite 5)) = label_lt10
   \<and> (10::real) \<le> 15 \<and> (15::real) < 20
   \<and> categorize_temperature (Some (Finite 15)) = label_10_20
   \<and> (20::real) \<le> 25 \<and> (25::real) < 30
   \<and> categorize_temperature (Some (Finite 25)) = label_20_30
   \<and> (30::real) \<le> 35 \<and> categorize_temperature (Some (Finite 35)) = label_ge30"
  using C1_categorize_buckets [of 5 15 25 35] by simp

text \<open>
  Claim C2. \<open>categorize_temperature\<close> is total on nullable floats (it is a function
  into strings with no failing branch), its result is always one of the five pairwise
  different buckets, and it is monotonic: for finite temperatures \<open>t1 < t2\<close> both
  results are ranked buckets and the bucket of \<open>t1\<close> is not later than that of \<open>t2\<close>.
\<close>

theorem C2_categorize_total_monotonic:
  "categorize_temperature t \<in> set all_buckets
   \<and> distinct all_buckets \<and> length all_buckets = 5
   \<and> (t1 < t2 \<longrightarrow>
        (\<exists>r1 r2. bucket_rank (categorize_temperature (Some (Finite t1))) = Some r1
           \<and> bucket_rank (categorize_temperature (Some (Finite t2))) = Some r2
           \<and> r1 \<le> r2))"
proof -
  have mem: "categorize_temperature t \<in> set all_buckets"
    by (cases t) (simp_all add: all_buckets_def)
  have mono: "\<exists>r1 r2. bucket_rank (categorize_temperature (Some (Finite t1))) = Some r1
           \<and> bucket_rank (categorize_temperature (Some (Finite t2))) = Some r2
           \<and> r1 \<le> r2" if "t1 < t2"
    using that by (simp add: categorize_Finite bucket_rank_labels)
  show ?thesis
    using mem mono distinct_all_buckets by (simp add: all_buckets_def)
qed

theorem C2_categorize_total_monotonic_witness:
  "(9::real) < 31
   \<and> bucket_rank (categorize_temperature (Some (Finite 9))) = Some 0
   \<and> bucket_rank (categorize_temperature (Some (Finite 31))) = Some 3
   \<and> categorize_temperature (Some (Finite 9)) \<in> set all_buckets"
  using C2_categorize_total_monotonic [of "Some (Finite 9)" 9 31]
  by (simp add: categorize_Finite bucket_rank_labels)

section \<open>The filter: results\<close>

lemma set_unique: "set (unique xs) = set xs"
  by (induction xs) auto

lemma distinct_unique: "distinct (unique xs)"
  by (induction xs) (auto simp: set_unique)

lemma boolean_index_map: "boolean_index df (map P df) = filter P df"
  by (induction df) (simp_all add: boolean_index_def)

lemma mask_and_map: "mask_and (map P xs) (map Q xs) = map (\<lambda>x. P x \<and> Q x) xs"
  by (induction xs) (simp_all add: mask_and_def)

lemma isin_column: "isin (column name df) vals = map (\<lambda>r. name r \<in> set vals) df"
  by (simp add: isin_def column_def)

lemma filtered_df_filter:
  "filtered_df df sel_cond sel_country sel_city sel_range = filter (row_selected sel_cond sel_country sel_city sel_range) df"
proof -
  have "filtered_df df sel_cond sel_country sel_city sel_range =
      boolean_index df (map (\<lambda>r. ((condition_name r \<in> set sel_cond \<and> country_name r \<in> set sel_country)
         \<and> city_name r \<in> set sel_city) \<and> temp_range r \<in> set sel_range) df)"
    by (simp only: filtered_df_def isin_column mask_and_map)
  also have "\<dots> = filter (\<lambda>r. ((condition_name r \<in> set sel_cond \<and> country_name r \<in> set sel_country)
         \<and> city_name r \<in> set sel_city) \<and> temp_range r \<in> set sel_range) df"
    by (rule boolean_index_map)
  also have "\<dots> = filter (row_selected sel_cond sel_country sel_city sel_range) df"
    by (rule arg_cong [where f = "\<lambda>P. filter P df"]) (auto simp: row_selected_def)
  finally show ?thesis .
qed

text \<open>
  Claim C3. The filter keeps a row exactly when its condition, country, city and
  temperature bucket are each in the corresponding selection (the kept rows stay in their
  order, with their multiplicity); so an empty selection in any one of the four
  dimensions gives the empty frame. The filter has no failing branch.
\<close>

theorem C3_filter_membership:
  "filtered_df df sel_cond sel_country sel_city sel_range = filter (row_selected sel_cond sel_country sel_city sel_range) df
   \<and> (r \<in> set (filtered_df df sel_cond sel_country sel_city sel_range) \<longleftrightarrow>
        r \<in> set df \<and> condition_name r \<in> set sel_cond \<and> country_name r \<in> set sel_country
          \<and> city_name r \<in> set sel_city \<and> temp_range r \<in> set sel_range)
   \<and> (sel_cond = [] \<or> sel_country = [] \<or> sel_city = [] \<or> sel_range = [] \<longrightarrow> filtered_df df sel_cond sel_country sel_city sel_range = [])"
proof -
  have 1: "filtered_df df sel_cond sel_country sel_city sel_range = filter (row_selected sel_cond sel_country sel_city sel_range) df"
    by (rule filtered_df_filter)
  have 2: "r \<in> set (filtered_df df sel_cond sel_country sel_city sel_range) \<longleftrightarrow>
        r \<in> set df \<and> condition_name r \<in> set sel_cond \<and> country_name r \<in> set sel_country
          \<and> city_name r \<in> set sel_city \<and> temp_range r \<in> set sel_range"
    by (auto simp: 1 row_selected_def)
  have 3: "filtered_df df sel_cond sel_country sel_city sel_range = []" if "sel_cond = [] \<or> sel_country = [] \<or> sel_city = [] \<or> sel_range = []"
    using that by (auto simp: 1 row_selected_def filter_empty_conv)
  show ?thesis using 1 2 3 by blast
qed

theorem C3_filter_membership_witness:
  "filtered_df (apply_categorize [row_rio, row_oslo])
       [''Clear'', ''Snow''] [''Brazil''] [''Rio'', ''Oslo''] [label_ge30, label_unknown]
     = [add_temp_range row_rio]
   \<and> filtered_df (apply_categorize [row_rio, row_oslo])
       [''Clear'', ''Snow''] [] [''Rio'', ''Oslo''] [label_ge30, label_unknown] = []"
  using C3_filter_membership [of "apply_categorize [row_rio, row_oslo]"
      "[''Clear'', ''Snow'']" "[''Brazil'']" "[''Rio'', ''Oslo'']"
      "[label_ge30, label_unknown]" "add_temp_range row_rio"]
    C3_filter_membership [of "apply_categorize [row_rio, row_oslo]"
      "[''Clear'', ''Snow'']" "[]" "[''Rio'', ''Oslo'']"
      "[label_ge30, label_unknown]" "add_temp_range row_rio"]
  by (simp add: apply_categorize_def add_temp_range_def row_rio_def row_oslo_def
      row_selected_def label_defs)

text \<open>
  Claim C4. With each selection equal to the distinct values of its column in the frame
  (the default of each widget, \<open>df[col].unique()\<close>), the filter returns the frame itself.
\<close>

theorem C4_filter_default_identity:
  "filtered_df df (unique (column condition_name df)) (unique (column country_name df))
     (unique (column city_name df)) (unique (column temp_range df)) = df"
  by (simp add: filtered_df_filter row_selected_def set_unique column_def)

theorem C4_filter_default_identity_witness:
  "filtered_df (apply_categorize [row_rio, row_oslo])
     (unique (column condition_name (apply_categorize [row_rio, row_oslo])))
     (unique (column country_name (apply_categorize [row_rio, row_oslo])))
     (unique (column city_name (apply_categorize [row_rio, row_oslo])))
     (unique (column temp_range (apply_categorize [row_rio, row_oslo])))
   = apply_categorize [row_rio, row_oslo]
   \<and> unique (column temp_range (apply_categorize [row_rio, row_oslo]))
       = [label_ge30, label_unknown]"
  using C4_filter_default_identity [of "apply_categorize [row_rio, row_oslo]"]
  by (simp add: apply_categorize_def add_temp_range_def row_rio_def row_oslo_def column_def
      label_defs)

text \<open>
  Claim C10. A NaN temperature is null for \<open>pd.isnull\<close>, so it is bucketed as "Unknown"
  and does not reach the final else-branch (the bucket from 30).
\<close>

theorem C10_categorize_nan_unknown:
  "categorize_temperature (Some NaN) = label_unknown
   \<and> categorize_temperature (Some NaN) \<noteq> label_ge30"
  by (simp add: categorize_NaN label_defs)

section \<open>Aggregation: results\<close>






















lemmas double_eval_defs =
  sequential_mean_def round_double_def round_to_grid_def double_exponent_def floor_log2_def
  bit_length.simps pow2_def round_half_even_def Let_def

lemma sequential_mean_examples:
  "sequential_mean [Finite 10] = Finite 10"
  "sequential_mean [Finite 20] = Finite 20"
  "sequential_mean [Finite 31] = Finite 31"
  by (simp_all add: double_eval_defs)

text \<open>
  Rounding at work. The doubles nearest to 0.05 and 0.2 add up to exactly 0.25 in double
  arithmetic (their real sum is a little more), so their mean is 0.125 and prints as
  \<open>0.12\<close>; and two doubles whose sum reaches \<open>2^1024\<close> add up to infinity, a mean that
  prints as \<open>inf\<close>.
\<close>

lemma floor_log2_examples:
  "floor_log2 (3602879701896397 / 72057594037927936) = - 5"
  "floor_log2 (18014398509481985 / 72057594037927936) = - 2"
  "floor_log2 (1 / 8) = - 3"
  by (simp_all add: floor_log2_def bit_length.simps)

lemma round_double_twentieth:
  "round_double (3602879701896397 / 72057594037927936)
     = Finite (3602879701896397 / 72057594037927936)"
  by (simp add: round_double_def double_exponent_def floor_log2_examples round_to_grid_def
      pow2_def round_half_even_def Let_def)

lemma round_double_quarter:
  "round_double (18014398509481985 / 72057594037927936) = Finite (1 / 4)"
  by (simp add: round_double_def double_exponent_def floor_log2_examples round_to_grid_def
      pow2_def round_half_even_def Let_def)

lemma round_double_eighth: "round_double (1 / 8) = Finite (1 / 8)"
  by (simp add: round_double_def double_exponent_def floor_log2_examples round_to_grid_def
      pow2_def round_half_even_def Let_def)

lemma sequential_mean_rounds:
  "sequential_mean [Finite (3602879701896397 / 72057594037927936),
                    Finite (3602879701896397 / 18014398509481984)] = Finite (1 / 8)"
proof -
  have s: "(3602879701896397 / 72057594037927936 + 3602879701896397 / 18014398509481984 :: real)
      = 18014398509481985 / 72057594037927936" by simp
  have h: "(1 / 4 / real (length [a, b]) :: real) = 1 / 8" for a b :: pyfloat by simp
  show ?thesis
    unfolding sequential_mean_def foldl_Cons foldl_Nil pf_add.simps add_0
      round_double_twentieth s round_double_quarter pf_div_count.simps h round_double_eighth
    by (rule refl)
qed

lemma format_2f_eighth: "format_2f (Finite (1 / 8)) = ''0.12''"
  by (simp add: round_half_even_def str_nat.simps digit_char_def digits_def Let_def)

lemma pf_add_overflows: "pf_add (Finite (2 ^ 1023)) (Finite (2 ^ 1023)) = PosInf"
  by (simp add: round_double_def double_exponent_def floor_log2_def bit_length.simps
      round_to_grid_def pow2_def round_half_even_def Let_def)





section \<open>Summary metrics: results\<close>

lemma digit_char_digit: "d < 10 \<Longrightarrow> digit_char d \<in> set digits"
  unfolding digit_char_def by (rule nth_mem) (simp add: digits_def)

lemma format_2f_shape:
  "\<exists>ip fp. format_2f (Finite x) = ip @ ''.'' @ fp \<and> length fp = 2 \<and> set fp \<subseteq> set digits"
proof -
  define n where "n = nat (round_half_even (\<bar>x\<bar> * 100))"
  let ?ip = "(if x < 0 then ''-'' else []) @ str_nat (n div 100)"
  let ?fp = "[digit_char (n mod 100 div 10), digit_char (n mod 10)]"
  have 1: "format_2f (Finite x) = ?ip @ ''.'' @ ?fp"
    by (simp add: n_def Let_def)
  have "n mod 100 div 10 < 10" by arith
  then have 2: "set ?fp \<subseteq> set digits"
    using digit_char_digit [of "n mod 100 div 10"] digit_char_digit [of "n mod 10"]
    by simp
  have 3: "length ?fp = 2" by simp
  from 1 2 3 show ?thesis by blast
qed

lemma round_half_even_near: "\<bar>real_of_int (round_half_even y) - y\<bar> \<le> 1 / 2"
proof -
  have "real_of_int \<lfloor>y\<rfloor> \<le> y" "y < real_of_int \<lfloor>y\<rfloor> + 1" by linarith+
  then show ?thesis
    unfolding round_half_even_def Let_def by (auto split: if_splits)
qed

lemma summary_metrics_empty: "summary_metrics fmean [] = (0, 0, en_dash)"
  by (simp add: summary_metrics_def nunique_def column_def)

lemma summary_metrics_not_finite:
  "fdf \<noteq> [] \<Longrightarrow> series_mean fmean (column temp fdf) = PosInf \<Longrightarrow>
     snd (snd (summary_metrics fmean fdf)) = ''inf''"
  "fdf \<noteq> [] \<Longrightarrow> series_mean fmean (column temp fdf) = NaN \<Longrightarrow>
     snd (snd (summary_metrics fmean fdf)) = ''nan''"
  by (simp_all add: summary_metrics_def)

lemmas metric_eval_defs =
  summary_metrics_def apply_categorize_def add_temp_range_def row_rio_def row_oslo_def
  column_def nunique_def series_mean_def round_half_even_def str_nat.simps
  digit_char_def digits_def Let_def

lemma nunique_card: "nunique xs = card (set xs)"
  by (metis distinct_card distinct_unique nunique_def set_unique)

text \<open>
  Claim C6, as amended. On the empty frame the metrics are 0 cities, 0 rows and the
  en dash, which is not the text of a NaN. On any frame the first two metrics are the
  number of distinct cities and the number of rows. On a non-empty frame whose mean
  temperature is a finite number \<open>x\<close>, the third metric is \<open>x\<close> in the format \<open>.2f\<close>:
  a point followed by exactly two digits.
\<close>

theorem C6_summary_metrics:
  "summary_metrics fmean [] = (0, 0, en_dash)
   \<and> en_dash \<noteq> format_2f NaN
   \<and> fst (summary_metrics fmean fdf) = card (city_name ` set fdf)
   \<and> fst (snd (summary_metrics fmean fdf)) = length fdf
   \<and> (fdf \<noteq> [] \<and> series_mean fmean (column temp fdf) = Finite x \<longrightarrow>
        snd (snd (summary_metrics fmean fdf)) = format_2f (Finite x)
        \<and> (\<exists>ip fp. snd (snd (summary_metrics fmean fdf)) = ip @ ''.'' @ fp
              \<and> length fp = 2 \<and> set fp \<subseteq> set digits))"
proof -
  have 1: "en_dash \<noteq> format_2f NaN"
    by (simp add: en_dash_def)
  have 2: "fst (summary_metrics fmean fdf) = card (city_name ` set fdf)"
    by (simp add: summary_metrics_def nunique_card column_def)
  have 3: "fst (snd (summary_metrics fmean fdf)) = length fdf"
    by (simp add: summary_metrics_def)
  have 4: "snd (snd (summary_metrics fmean fdf)) = format_2f (Finite x)
        \<and> (\<exists>ip fp. snd (snd (summary_metrics fmean fdf)) = ip @ ''.'' @ fp
              \<and> length fp = 2 \<and> set fp \<subseteq> set digits)"
    if h: "fdf \<noteq> [] \<and> series_mean fmean (column temp fdf) = Finite x"
  proof -
    have "snd (snd (summary_metrics fmean fdf)) = format_2f (Finite x)"
      using h by (simp add: summary_metrics_def)
    then show ?thesis
      using format_2f_shape [of x] by simp
  qed
  from summary_metrics_empty [of fmean] 1 2 3 4 show ?thesis
    by (intro conjI impI) blast+
qed

theorem C6_summary_metrics_witness:
  "apply_categorize [row_rio, row_oslo] \<noteq> []
   \<and> series_mean sequential_mean (column temp (apply_categorize [row_rio, row_oslo]))
       = Finite 31
   \<and> summary_metrics sequential_mean (apply_categorize [row_rio, row_oslo])
       = (2, 2, ''31.00'')
   \<and> format_2f (Finite 31) = ''31.00''"
  using C6_summary_metrics [of sequential_mean "apply_categorize [row_rio, row_oslo]" 31]
  by (simp add: metric_eval_defs sequential_mean_examples)

text \<open>
  A non-empty filtered frame need not have a mean: with only the bucket "Unknown"
  selected every kept temperature is null, the mean is NaN and the metric reads
  \<open>nan\<close>, with no decimals.
\<close>

theorem C6_metric_nan_counterexample:
  "filtered_df (apply_categorize [row_rio, row_oslo])
       [''Clear'', ''Snow''] [''Brazil'', ''Norway''] [''Rio'', ''Oslo''] [label_unknown]
     = [add_temp_range row_oslo]
   \<and> [add_temp_range row_oslo] \<noteq> []
   \<and> summary_metrics sequential_mean [add_temp_range row_oslo] = (1, 1, ''nan'')
   \<and> CHR ''.'' \<notin> set (snd (snd (summary_metrics sequential_mean [add_temp_range row_oslo])))"
  by (simp add: filtered_df_filter row_selected_def metric_eval_defs label_defs)

section \<open>Warehouse access: results\<close>

lemma open_after_append: "open_after n (xs @ ys) = open_after (open_after n xs) ys"
  by (induction n xs rule: open_after.induct) simp_all

lemma open_connections_append:
  "open_connections (tr @ xs) = open_after (open_connections tr) xs"
  by (simp add: open_connections_def open_after_append)

lemma round_trips_append: "round_trips (tr @ xs) = round_trips tr + round_trips xs"
  by (simp add: round_trips_def)

lemma get_table_names_outcome:
  "get_table_names drv cfg tr = outcome drv cfg table_names_sql tr"
  by (simp add: get_table_names_def outcome_def psycopg2_connect_def run_statement_def
      conn_close_def split: option.splits sum.splits)

lemma get_table_data_outcome:
  "get_table_data drv cfg schema table tr = outcome drv cfg (table_data_sql schema table) tr"
  by (simp add: get_table_data_def outcome_def psycopg2_connect_def run_statement_def
      conn_close_def split: option.splits sum.splits)

lemma load_weather_data_outcome:
  "load_weather_data drv cfg tr = outcome drv cfg weather_sql tr"
  by (simp add: load_weather_data_def outcome_def psycopg2_connect_def run_statement_def
      conn_close_def split: option.splits sum.splits)

lemma outcome_success:
  "outcome drv cfg sql tr = (Inr r, tr') \<Longrightarrow>
     tr' = tr @ [Connected cfg, Execute sql, Close]
     \<and> open_connections tr' = open_connections tr \<and> round_trips tr' = round_trips tr + 1"
  by (auto simp: outcome_def open_connections_append round_trips_append round_trips_def
      split: option.splits sum.splits)

lemma outcome_query_error:
  "connect_error drv tr cfg = None \<Longrightarrow> query_result drv (tr @ [Connected cfg]) sql = Inl e \<Longrightarrow>
     outcome drv cfg sql tr = (Inl e, tr @ [Connected cfg, Execute sql])
     \<and> open_connections (snd (outcome drv cfg sql tr)) = open_connections tr + 1"
  by (simp add: outcome_def open_connections_append)

lemma outcome_connect_error:
  "connect_error drv tr cfg = Some e \<Longrightarrow>
     outcome drv cfg sql tr = (Inl e, tr @ [ConnectFailed cfg])
     \<and> open_connections (snd (outcome drv cfg sql tr)) = open_connections tr"
  by (simp add: outcome_def open_connections_append)

lemma cache_data_hit:
  "cache_data f c k tr = (Inr v, c', tr') \<Longrightarrow> cache_data f c' k tr' = (Inr v, c', tr')"
  by (auto simp: cache_data_def split: option.splits prod.splits sum.splits)

lemma cache_data_miss:
  "c k = None \<Longrightarrow> cache_data f c k tr = (Inr v, c', tr') \<Longrightarrow>
     f k tr = (Inr v, tr') \<and> c' = c(k \<mapsto> v)"
  by (auto simp: cache_data_def split: option.splits prod.splits sum.splits)

lemma cache_data_two_keys:
  assumes "a \<noteq> b" "c0 a = None" "c0 b = None"
    and "cache_data f c0 a tr0 = (Inr va, c1, tr1)"
    and "cache_data f c1 b tr1 = (Inr vb, c2, tr2)"
  shows "f a tr0 = (Inr va, tr1) \<and> f b tr1 = (Inr vb, tr2) \<and> c2 a = Some va \<and> c2 b = Some vb"
proof -
  from cache_data_miss [OF assms(2) assms(4)]
  have 1: "f a tr0 = (Inr va, tr1)" "c1 = c0(a \<mapsto> va)" by simp_all
  then have "c1 b = None" using assms(1,3) by simp
  from cache_data_miss [OF this assms(5)]
  have 2: "f b tr1 = (Inr vb, tr2)" "c2 = c1(b \<mapsto> vb)" by simp_all
  from 1 2 assms(1) show ?thesis by simp
qed

lemmas db_eval_defs =
  outcome_def driver_ok_def driver_bad_query_def driver_down_def open_connections_def
  round_trips_def

text \<open>
  Claim C8, as amended. Each of the three query functions closes its connection on the
  path where the statement is answered: the trace grows by the connection, the statement
  and the close, and no connection more is open than before. Where the statement raises,
  the error leaves the function after the statement, the connection still open (no
  handler closes it); where the connection is refused, there is none to release.
\<close>

theorem C8_release_on_success_only:
  "(get_table_names drv cfg tr = (Inr r, tr') \<longrightarrow>
      tr' = tr @ [Connected cfg, Execute table_names_sql, Close]
      \<and> open_connections tr' = open_connections tr)
   \<and> (get_table_data drv cfg schema table tr = (Inr r, tr') \<longrightarrow>
      tr' = tr @ [Connected cfg, Execute (table_data_sql schema table), Close]
      \<and> open_connections tr' = open_connections tr)
   \<and> (load_weather_data drv cfg tr = (Inr r, tr') \<longrightarrow>
      tr' = tr @ [Connected cfg, Execute weather_sql, Close]
      \<and> open_connections tr' = open_connections tr)
   \<and> (connect_error drv tr cfg = None
        \<and> query_result drv (tr @ [Connected cfg]) table_names_sql = Inl e \<longrightarrow>
      get_table_names drv cfg tr = (Inl e, tr @ [Connected cfg, Execute table_names_sql])
      \<and> open_connections (snd (get_table_names drv cfg tr)) = open_connections tr + 1)
   \<and> (connect_error drv tr cfg = None
        \<and> query_result drv (tr @ [Connected cfg]) (table_data_sql schema table) = Inl e \<longrightarrow>
      get_table_data drv cfg schema table tr
        = (Inl e, tr @ [Connected cfg, Execute (table_data_sql schema table)])
      \<and> open_connections (snd (get_table_data drv cfg schema table tr))
        = open_connections tr + 1)
   \<and> (connect_error drv tr cfg = None
        \<and> query_result drv (tr @ [Connected cfg]) weather_sql = Inl e \<longrightarrow>
      load_weather_data drv cfg tr = (Inl e, tr @ [Connected cfg, Execute weather_sql])
      \<and> open_connections (snd (load_weather_data drv cfg tr)) = open_connections tr + 1)
   \<and> (connect_error drv tr cfg = Some e \<longrightarrow>
      get_table_names drv cfg tr = (Inl e, tr @ [ConnectFailed cfg])
      \<and> get_table_data drv cfg schema table tr = (Inl e, tr @ [ConnectFailed cfg])
      \<and> load_weather_data drv cfg tr = (Inl e, tr @ [ConnectFailed cfg]))"
  unfolding get_table_names_outcome get_table_data_outcome load_weather_data_outcome
  using outcome_success [of drv cfg _ tr r tr'] outcome_query_error [of drv tr cfg _ e]
    outcome_connect_error [of drv tr cfg e]
  by blast

theorem C8_release_on_success_only_witness:
  "get_table_names driver_ok config_local []
     = (Inr 1, [Connected config_local, Execute table_names_sql, Close])
   \<and> get_table_data driver_ok config_local ''dim'' ''city'' []
     = (Inr 1, [Connected config_local, Execute (table_data_sql ''dim'' ''city''), Close])
   \<and> load_weather_data driver_ok config_local []
     = (Inr 1, [Connected config_local, Execute weather_sql, Close])
   \<and> open_connections
       [Connected config_local, Execute (table_data_sql ''dim'' ''city''), Close] = 0
   \<and> load_weather_data driver_bad_query config_local []
     = (Inl DatabaseError, [Connected config_local, Execute weather_sql])
   \<and> open_connections (snd (load_weather_data driver_bad_query config_local [])) = 1
   \<and> get_table_names driver_down config_local []
     = (Inl OperationalError, [ConnectFailed config_local])"
  using C8_release_on_success_only [of driver_ok config_local "[]" 1
      "[Connected config_local, Execute table_names_sql, Close]"
      "''dim''" "''city''" DatabaseError]
    C8_release_on_success_only [of driver_ok config_local "[]" 1
      "[Connected config_local, Execute (table_data_sql ''dim'' ''city''), Close]"
      "''dim''" "''city''" DatabaseError]
    C8_release_on_success_only [of driver_ok config_local "[]" 1
      "[Connected config_local, Execute weather_sql, Close]"
      "''dim''" "''city''" DatabaseError]
    C8_release_on_success_only [of driver_bad_query config_local "[]" 1 "[]"
      "''dim''" "''city''" DatabaseError]
    C8_release_on_success_only [of driver_down config_local "[]" 1 "[]"
      "''dim''" "''city''" OperationalError]
  by (simp add: get_table_data_outcome load_weather_data_outcome get_table_names_outcome
      db_eval_defs)

text \<open>
  On a warehouse that rejects the statement, each query function returns the error with
  its connection open: the trace has no \<open>Close\<close>.
\<close>

theorem C8_connection_left_open_counterexample:
  "get_table_data driver_bad_query config_local ''dim'' ''city'' []
     = (Inl DatabaseError, [Connected config_local, Execute (table_data_sql ''dim'' ''city'')])
   \<and> open_connections (snd (get_table_data driver_bad_query config_local ''dim'' ''city'' [])) = 1
   \<and> Close \<notin> set (snd (get_table_data driver_bad_query config_local ''dim'' ''city'' []))
   \<and> load_weather_data driver_bad_query config_local []
     = (Inl DatabaseError, [Connected config_local, Execute weather_sql])
   \<and> get_table_names driver_bad_query config_local []
     = (Inl DatabaseError, [Connected config_local, Execute table_names_sql])"
  by (simp add: get_table_data_outcome load_weather_data_outcome get_table_names_outcome
      db_eval_defs)

lemma cached_round_trip:
  assumes f: "\<And>k tr. f k tr = outcome drv cfg (sql k) tr"
    and "c0 k = None" "cache_data f c0 k tr0 = (Inr v, c1, tr1)"
  shows "cache_data f c1 k tr1 = (Inr v, c1, tr1) \<and> round_trips tr1 = round_trips tr0 + 1"
proof -
  from cache_data_miss [OF assms(2,3)] have "outcome drv cfg (sql k) tr0 = (Inr v, tr1)"
    by (simp add: f)
  from outcome_success [OF this, THEN conjunct2, THEN conjunct2]
  have "round_trips tr1 = round_trips tr0 + 1" .
  with cache_data_hit [OF assms(3)] show ?thesis by simp
qed

lemma get_table_data_key_outcome:
  "(case k of (schema, table) \<Rightarrow> get_table_data drv cfg schema table) tr
     = outcome drv cfg (table_data_sql (fst k) (snd k)) tr"
  by (cases k) (simp add: get_table_data_outcome)

text \<open>
  Claim C9. For each cached query function: when a call on a key that is not cached
  returns a value, a second call with the same arguments returns the same value and
  sends nothing to the warehouse, so the two calls make exactly one round trip. For
  \<open>get_table_data\<close>, calls with two different argument pairs, neither cached, make two
  round trips, and each value is then cached under its own key.
\<close>

theorem C9_cache_round_trips:
  "(c0 () = None \<and> cached_get_table_names drv cfg c0 () tr0 = (Inr v, c1, tr1) \<longrightarrow>
      cached_get_table_names drv cfg c1 () tr1 = (Inr v, c1, tr1)
      \<and> round_trips tr1 = round_trips tr0 + 1)
   \<and> (c0 () = None \<and> cached_load_weather_data drv cfg c0 () tr0 = (Inr v, c1, tr1) \<longrightarrow>
      cached_load_weather_data drv cfg c1 () tr1 = (Inr v, c1, tr1)
      \<and> round_trips tr1 = round_trips tr0 + 1)
   \<and> (d0 a = None \<and> cached_get_table_data drv cfg d0 a tr0 = (Inr v, d1, tr1) \<longrightarrow>
      cached_get_table_data drv cfg d1 a tr1 = (Inr v, d1, tr1)
      \<and> round_trips tr1 = round_trips tr0 + 1)
   \<and> (a \<noteq> b \<and> d0 a = None \<and> d0 b = None
        \<and> cached_get_table_data drv cfg d0 a tr0 = (Inr v, d1, tr1)
        \<and> cached_get_table_data drv cfg d1 b tr1 = (Inr w, d2, tr2) \<longrightarrow>
      round_trips tr2 = round_trips tr0 + 2
      \<and> d2 a = Some v \<and> d2 b = Some w
      \<and> cached_get_table_data drv cfg d2 a tr2 = (Inr v, d2, tr2)
      \<and> cached_get_table_data drv cfg d2 b tr2 = (Inr w, d2, tr2))"
proof -
  have 1: "cached_get_table_names drv cfg c1 () tr1 = (Inr v, c1, tr1)
      \<and> round_trips tr1 = round_trips tr0 + 1"
    if "c0 () = None \<and> cached_get_table_names drv cfg c0 () tr0 = (Inr v, c1, tr1)"
    using that unfolding cached_get_table_names_def
    by (intro cached_round_trip [where sql = "\<lambda>_. table_names_sql" and ?c0.0 = c0])
       (simp_all add: get_table_names_outcome)
  have 2: "cached_load_weather_data drv cfg c1 () tr1 = (Inr v, c1, tr1)
      \<and> round_trips tr1 = round_trips tr0 + 1"
    if "c0 () = None \<and> cached_load_weather_data drv cfg c0 () tr0 = (Inr v, c1, tr1)"
    using that unfolding cached_load_weather_data_def
    by (intro cached_round_trip [where sql = "\<lambda>_. weather_sql" and ?c0.0 = c0])
       (simp_all add: load_weather_data_outcome)
  have 3: "cached_get_table_data drv cfg d1 a tr1 = (Inr v, d1, tr1)
      \<and> round_trips tr1 = round_trips tr0 + 1"
    if "d0 a = None \<and> cached_get_table_data drv cfg d0 a tr0 = (Inr v, d1, tr1)"
    for d0 a tr0 v d1 tr1
    using that unfolding cached_get_table_data_def
    by (intro cached_round_trip
          [where sql = "\<lambda>k. table_data_sql (fst k) (snd k)" and ?c0.0 = d0])
       (simp_all add: get_table_data_key_outcome)
  have 4: "round_trips tr2 = round_trips tr0 + 2
      \<and> d2 a = Some v \<and> d2 b = Some w
      \<and> cached_get_table_data drv cfg d2 a tr2 = (Inr v, d2, tr2)
      \<and> cached_get_table_data drv cfg d2 b tr2 = (Inr w, d2, tr2)"
    if h: "a \<noteq> b \<and> d0 a = None \<and> d0 b = None
        \<and> cached_get_table_data drv cfg d0 a tr0 = (Inr v, d1, tr1)
        \<and> cached_get_table_data drv cfg d1 b tr1 = (Inr w, d2, tr2)"
  proof -
    let ?f = "\<lambda>(schema, table). get_table_data drv cfg schema table"
    from h have ca: "cache_data ?f d0 a tr0 = (Inr v, d1, tr1)"
      and cb: "cache_data ?f d1 b tr1 = (Inr w, d2, tr2)"
      by (simp_all add: cached_get_table_data_def)
    from h ca cb have k: "?f a tr0 = (Inr v, tr1) \<and> ?f b tr1 = (Inr w, tr2)
        \<and> d2 a = Some v \<and> d2 b = Some w"
      by (intro cache_data_two_keys [where ?c0.0 = d0 and ?c1.0 = d1]) simp_all
    have r1: "round_trips tr1 = round_trips tr0 + 1"
      using 3 [of d0 a tr0 v d1 tr1] h by simp
    have "outcome drv cfg (table_data_sql (fst b) (snd b)) tr1 = (Inr w, tr2)"
      using k by (simp add: get_table_data_key_outcome)
    from outcome_success [OF this, THEN conjunct2, THEN conjunct2]
    have r2: "round_trips tr2 = round_trips tr1 + 1" .
    have da: "d2 a = Some v" and db: "d2 b = Some w" using k by simp_all
    have hit_a: "cache_data ?f d2 a tr2 = (Inr v, d2, tr2)"
      by (simp add: cache_data_def da)
    have hit_b: "cache_data ?f d2 b tr2 = (Inr w, d2, tr2)"
      by (simp add: cache_data_def db)
    from r1 r2 have "round_trips tr2 = round_trips tr0 + 2" by simp
    with da db hit_a hit_b show ?thesis
      unfolding cached_get_table_data_def by (intro conjI)
  qed
  show ?thesis
  proof (intro conjI impI)
    assume "c0 () = None \<and> cached_get_table_names drv cfg c0 () tr0 = (Inr v, c1, tr1)"
    from 1 [OF this]
    show "cached_get_table_names drv cfg c1 () tr1 = (Inr v, c1, tr1)"
      and "round_trips tr1 = round_trips tr0 + 1" by simp_all
  next
    assume "c0 () = None \<and> cached_load_weather_data drv cfg c0 () tr0 = (Inr v, c1, tr1)"
    from 2 [OF this]
    show "cached_load_weather_data drv cfg c1 () tr1 = (Inr v, c1, tr1)"
      and "round_trips tr1 = round_trips tr0 + 1" by simp_all
  next
    assume "d0 a = None \<and> cached_get_table_data drv cfg d0 a tr0 = (Inr v, d1, tr1)"
    from 3 [OF this]
    show "cached_get_table_data drv cfg d1 a tr1 = (Inr v, d1, tr1)"
      and "round_trips tr1 = round_trips tr0 + 1" by simp_all
  next
    assume "a \<noteq> b \<and> d0 a = None \<and> d0 b = None
        \<and> cached_get_table_data drv cfg d0 a tr0 = (Inr v, d1, tr1)
        \<and> cached_get_table_data drv cfg d1 b tr1 = (Inr w, d2, tr2)"
    from 4 [OF this]
    show "round_trips tr2 = round_trips tr0 + 2" and "d2 a = Some v" and "d2 b = Some w"
      and "cached_get_table_data drv cfg d2 a tr2 = (Inr v, d2, tr2)"
      and "cached_get_table_data drv cfg d2 b tr2 = (Inr w, d2, tr2)" by simp_all
  qed
qed

theorem C9_cache_round_trips_witness:
  "cached_get_table_names driver_ok config_local Map.empty () []
     = (Inr 1, [() \<mapsto> 1], [Connected config_local, Execute table_names_sql, Close])
   \<and> cached_get_table_names driver_ok config_local [() \<mapsto> 1] ()
       [Connected config_local, Execute table_names_sql, Close]
     = (Inr 1, [() \<mapsto> 1], [Connected config_local, Execute table_names_sql, Close])
   \<and> round_trips [Connected config_local, Execute table_names_sql, Close] = round_trips [] + 1
   \<and> cached_load_weather_data driver_ok config_local Map.empty () []
     = (Inr 1, [() \<mapsto> 1], [Connected config_local, Execute weather_sql, Close])
   \<and> cached_load_weather_data driver_ok config_local [() \<mapsto> 1] ()
       [Connected config_local, Execute weather_sql, Close]
     = (Inr 1, [() \<mapsto> 1], [Connected config_local, Execute weather_sql, Close])
   \<and> cached_get_table_data driver_ok config_local Map.empty (''dim'', ''city'') []
     = (Inr 1, [(''dim'', ''city'') \<mapsto> 1],
        [Connected config_local, Execute (table_data_sql ''dim'' ''city''), Close])
   \<and> cached_get_table_data driver_ok config_local [(''dim'', ''city'') \<mapsto> 1] (''dim'', ''city'')
       [Connected config_local, Execute (table_data_sql ''dim'' ''city''), Close]
     = (Inr 1, [(''dim'', ''city'') \<mapsto> 1],
        [Connected config_local, Execute (table_data_sql ''dim'' ''city''), Close])
   \<and> cached_get_table_data driver_ok config_local [(''dim'', ''city'') \<mapsto> 1] (''dim'', ''date'')
       [Connected config_local, Execute (table_data_sql ''dim'' ''city''), Close]
     = (Inr 4, [(''dim'', ''city'') \<mapsto> 1, (''dim'', ''date'') \<mapsto> 4],
        [Connected config_local, Execute (table_data_sql ''dim'' ''city''), Close,
         Connected config_local, Execute (table_data_sql ''dim'' ''date''), Close])
   \<and> round_trips
        [Connected config_local, Execute (table_data_sql ''dim'' ''city''), Close,
         Connected config_local, Execute (table_data_sql ''dim'' ''date''), Close]
       = round_trips [] + 2"
proof -
  let ?tn = "[Connected config_local, Execute table_names_sql, Close]"
  let ?tw = "[Connected config_local, Execute weather_sql, Close]"
  let ?a = "(''dim'', ''city'')" and ?b = "(''dim'', ''date'')"
  let ?t1 = "[Connected config_local, Execute (table_data_sql ''dim'' ''city''), Close]"
  let ?t2 = "[Connected config_local, Execute (table_data_sql ''dim'' ''city''), Close,
         Connected config_local, Execute (table_data_sql ''dim'' ''date''), Close]"
  have n1: "cached_get_table_names driver_ok config_local Map.empty () []
      = (Inr 1, [() \<mapsto> 1], ?tn)"
    by (simp add: cached_get_table_names_def cache_data_def get_table_names_outcome
        outcome_def driver_ok_def)
  have w1: "cached_load_weather_data driver_ok config_local Map.empty () []
      = (Inr 1, [() \<mapsto> 1], ?tw)"
    by (simp add: cached_load_weather_data_def cache_data_def load_weather_data_outcome
        outcome_def driver_ok_def)
  have d1: "cached_get_table_data driver_ok config_local Map.empty ?a []
      = (Inr 1, [?a \<mapsto> 1], ?t1)"
    by (simp add: cached_get_table_data_def cache_data_def get_table_data_outcome
        outcome_def driver_ok_def)
  have d2: "cached_get_table_data driver_ok config_local [?a \<mapsto> 1] ?b ?t1
      = (Inr 4, [?a \<mapsto> 1, ?b \<mapsto> 4], ?t2)"
    by (simp add: cached_get_table_data_def cache_data_def get_table_data_outcome
        outcome_def driver_ok_def eval_nat_numeral)
  have ne: "?a \<noteq> ?b" by simp
  note names = C9_cache_round_trips [where ?c0.0 = Map.empty and drv = driver_ok
      and cfg = config_local and ?tr0.0 = "[]" and v = 1 and ?c1.0 = "[() \<mapsto> 1]"
      and ?tr1.0 = ?tn, THEN conjunct1, rule_format]
  note weather = C9_cache_round_trips [where ?c0.0 = Map.empty and drv = driver_ok
      and cfg = config_local and ?tr0.0 = "[]" and v = 1 and ?c1.0 = "[() \<mapsto> 1]"
      and ?tr1.0 = ?tw, THEN conjunct2, THEN conjunct1, rule_format]
  note same = C9_cache_round_trips [where drv = driver_ok
      and cfg = config_local and ?tr0.0 = "[]" and v = 1 and ?tr1.0 = ?t1
      and ?d0.0 = Map.empty and a = ?a and ?d1.0 = "[?a \<mapsto> 1]",
      THEN conjunct2, THEN conjunct2, THEN conjunct1, rule_format]
  note data = C9_cache_round_trips [where drv = driver_ok
      and cfg = config_local and ?tr0.0 = "[]" and v = 1 and ?tr1.0 = ?t1
      and ?d0.0 = Map.empty and a = ?a and ?d1.0 = "[?a \<mapsto> 1]" and b = ?b and w = 4
      and ?d2.0 = "[?a \<mapsto> 1, ?b \<mapsto> 4]" and ?tr2.0 = ?t2,
      THEN conjunct2, THEN conjunct2, THEN conjunct2, rule_format]
  have e: "(Map.empty :: unit \<rightharpoonup> nat) () = None"
    "(Map.empty :: string \<times> string \<rightharpoonup> nat) ?a = None"
    "(Map.empty :: string \<times> string \<rightharpoonup> nat) ?b = None" by simp_all
  from names [OF conjI [OF e(1) n1]]
  have r1: "cached_get_table_names driver_ok config_local [() \<mapsto> 1] () ?tn
      = (Inr 1, [() \<mapsto> 1], ?tn)" and r2: "round_trips ?tn = round_trips [] + 1"
    by blast+
  from weather [OF conjI [OF e(1) w1]]
  have r3: "cached_load_weather_data driver_ok config_local [() \<mapsto> 1] () ?tw
      = (Inr 1, [() \<mapsto> 1], ?tw)"
    by blast
  from same [OF conjI [OF e(2) d1]]
  have r4: "cached_get_table_data driver_ok config_local [?a \<mapsto> 1] ?a ?t1
      = (Inr 1, [?a \<mapsto> 1], ?t1)"
    by blast
  from data [OF conjI [OF ne conjI [OF e(2) conjI [OF e(3) conjI [OF d1 d2]]]]]
  have r5: "round_trips ?t2 = round_trips [] + 2" by blast
  from n1 r1 r2 w1 r3 d1 r4 d2 r5 show ?thesis by (intro conjI)
qed

lemma script_start_Inr:
  "DB_CONFIG py_int env = Inr cfg \<Longrightarrow>
     script_start py_int env drv = outcome drv cfg table_names_sql []"
  by (simp add: script_start_def cached_get_table_names_def cache_data_def
      get_table_names_outcome split: prod.splits sum.splits)

lemma outcome_first_event:
  "\<exists>rest. snd (outcome drv cfg sql []) = Connected cfg # rest
      \<or> snd (outcome drv cfg sql []) = ConnectFailed cfg # rest"
  by (simp add: outcome_def split: option.splits sum.splits)

text \<open>
  Claim C7, as amended. The configuration is not checked: building \<open>DB_CONFIG\<close> fails
  only for a \<open>DB_PORT\<close> that is set and is no integer, with \<open>ValueError\<close> and before
  anything is sent to the warehouse. Otherwise the four other parameters are taken from
  the environment as they are, null where missing, and the first thing the script does
  with the warehouse is the attempt to connect with this very configuration.
\<close>

theorem C7_no_configuration_check:
  "(DB_CONFIG py_int env = Inl e \<longleftrightarrow>
      e = ValueError \<and> (\<exists>s. env ''DB_PORT'' = Some s \<and> py_int s = None))
   \<and> (DB_CONFIG py_int env = Inl e \<longrightarrow> script_start py_int env drv = (Inl e, []))
   \<and> (DB_CONFIG py_int env = Inr cfg \<longrightarrow>
        host cfg = env ''DB_HOST'' \<and> user cfg = env ''DB_USER''
        \<and> password cfg = env ''DB_PASSWORD'' \<and> dbname cfg = env ''DB_NAME''
        \<and> script_start py_int env drv = get_table_names drv cfg []
        \<and> (\<exists>rest. snd (script_start py_int env drv) = Connected cfg # rest
              \<or> snd (script_start py_int env drv) = ConnectFailed cfg # rest))"
proof -
  have 1: "DB_CONFIG py_int env = Inl e \<longleftrightarrow>
      e = ValueError \<and> (\<exists>s. env ''DB_PORT'' = Some s \<and> py_int s = None)"
    by (auto simp: DB_CONFIG_def split: option.splits)
  have 2: "script_start py_int env drv = (Inl e, [])" if "DB_CONFIG py_int env = Inl e"
    using that by (simp add: script_start_def)
  have 3: "host cfg = env ''DB_HOST'' \<and> user cfg = env ''DB_USER''
        \<and> password cfg = env ''DB_PASSWORD'' \<and> dbname cfg = env ''DB_NAME''"
    if "DB_CONFIG py_int env = Inr cfg"
    using that by (auto simp: DB_CONFIG_def split: option.splits)
  have 4: "script_start py_int env drv = get_table_names drv cfg []"
    if "DB_CONFIG py_int env = Inr cfg"
    using that by (simp add: script_start_Inr get_table_names_outcome)
  have 5: "\<exists>rest. snd (script_start py_int env drv) = Connected cfg # rest
              \<or> snd (script_start py_int env drv) = ConnectFailed cfg # rest"
    if "DB_CONFIG py_int env = Inr cfg"
    using that outcome_first_event [of drv cfg table_names_sql]
    by (simp add: script_start_Inr)
  from 1 2 3 4 5 show ?thesis by blast
qed

theorem C7_no_configuration_check_witness:
  "DB_CONFIG (\<lambda>s. None) [''DB_HOST'' \<mapsto> ''db.example''] =
     Inr \<lparr>host = Some ''db.example'', port = 5432, user = None, password = None, dbname = None\<rparr>
   \<and> script_start (\<lambda>s. None) [''DB_HOST'' \<mapsto> ''db.example''] driver_down =
     (Inl OperationalError,
      [ConnectFailed \<lparr>host = Some ''db.example'', port = 5432, user = None,
         password = None, dbname = None\<rparr>])
   \<and> DB_CONFIG (\<lambda>s. None) [''DB_PORT'' \<mapsto> ''http''] = Inl ValueError
   \<and> script_start (\<lambda>s. None) [''DB_PORT'' \<mapsto> ''http''] driver_ok = (Inl ValueError, [])"
  using C7_no_configuration_check [of "\<lambda>s. None" "[''DB_HOST'' \<mapsto> ''db.example'']"
      ValueError driver_down
      "\<lparr>host = Some ''db.example'', port = 5432, user = None, password = None, dbname = None\<rparr>"]
    C7_no_configuration_check [of "\<lambda>s. None" "[''DB_PORT'' \<mapsto> ''http'']"
      ValueError driver_ok config_none]
  by (simp add: DB_CONFIG_def get_table_names_outcome outcome_def driver_down_def)

text \<open>
  With no variable set at all, the configuration is built with four nulls, the script
  connects with it and, where the connector accepts that, runs the catalog query; where
  it does not, the error is the connector's.
\<close>

theorem C7_missing_parameters_counterexample:
  "DB_CONFIG (\<lambda>s. None) Map.empty = Inr config_none
   \<and> host config_none = None \<and> user config_none = None
   \<and> password config_none = None \<and> dbname config_none = None
   \<and> script_start (\<lambda>s. None) Map.empty driver_ok =
       (Inr 1, [Connected config_none, Execute table_names_sql, Close])
   \<and> script_start (\<lambda>s. None) Map.empty driver_down =
       (Inl OperationalError, [ConnectFailed config_none])"
  by (simp add: script_start_def DB_CONFIG_def config_none_def cached_get_table_names_def
      cache_data_def get_table_names_outcome outcome_def driver_ok_def driver_down_def)

end
